theory Spec2Isabelle
  imports Main "HOL-Library.Multiset" "HOL-Library.AList"
begin

section \<open>Strings\<close>

text \<open>
  A JavaScript string is modelled as a list of 8-bit characters, one \<open>char\<close> per code
  unit, so \<open>length\<close> is the source's \<open>.length\<close> for every string whose code units lie
  below 256. Every string that \<open>validateWord\<close> accepts is of that kind.
\<close>

definition charCode :: "char \<Rightarrow> nat" where
  "charCode c = of_char c"

text \<open>
  \<open>String.prototype.toLowerCase\<close> on code units below 256: the letters A-Z and the
  Latin-1 capitals (192-222, without the multiplication sign 215) move up by 32, every
  other code unit stays.
\<close>

definition toLowerChar :: "char \<Rightarrow> char" where
  "toLowerChar c =
     (let n = charCode c in
      if (65 \<le> n \<and> n \<le> 90) \<or> (192 \<le> n \<and> n \<le> 222 \<and> n \<noteq> 215)
      then char_of (n + 32) else c)"

definition toLowerCase :: "string \<Rightarrow> string" where
  "toLowerCase s = map toLowerChar s"

text \<open>
  \<open>String.prototype.toUpperCase\<close>: the letters a-z and the Latin-1 small letters
  224-254 (without the division sign 247) move down by 32. The three code units whose
  capital leaves the 8-bit range (181, 223, 255) are left as they are; the source
  upper-cases only strings that \<open>validateWord\<close> has accepted, where they do not occur.
\<close>

definition toUpperChar :: "char \<Rightarrow> char" where
  "toUpperChar c =
     (let n = charCode c in
      if (97 \<le> n \<and> n \<le> 122) \<or> (224 \<le> n \<and> n \<le> 254 \<and> n \<noteq> 247)
      then char_of (n - 32) else c)"

definition toUpperCase :: "string \<Rightarrow> string" where
  "toUpperCase s = map toUpperChar s"

text \<open>\<open>s.substring(i, j)\<close> for \<open>0 \<le> i \<le> j\<close>: the code units at the indices \<open>i, ..., j - 1\<close>
  that exist.\<close>

definition substring :: "nat \<Rightarrow> nat \<Rightarrow> string \<Rightarrow> string" where
  "substring i j s = take (j - i) (drop i s)"

section \<open>Scoring engine (game-logic)\<close>

text \<open>The character class \<open>[A-Za-z]\<close> of the regular expression in \<open>validateWord\<close>.\<close>

definition inClassAZaz :: "char \<Rightarrow> bool" where
  "inClassAZaz c =
     (let n = charCode c in (65 \<le> n \<and> n \<le> 90) \<or> (97 \<le> n \<and> n \<le> 122))"

text \<open>
  \<open>/^[A-Za-z]+$/.test(word)\<close>, read from the start of the input: one or more characters
  of the class, then the end of the input (no multiline flag, so \<open>$\<close> is the end only).
\<close>

fun classPlusEnd :: "string \<Rightarrow> bool" where
  "classPlusEnd [] = False"
| "classPlusEnd (c # cs) = (inClassAZaz c \<and> (cs = [] \<or> classPlusEnd cs))"

definition validateWord :: "string \<Rightarrow> bool" where
  "validateWord w = (length w = 5 \<and> classPlusEnd w)"

text \<open>The 52 letters of the alphabet, in both cases: what the specification calls
  alphabetic.\<close>

definition alphabetic :: "char \<Rightarrow> bool" where
  "alphabetic c = (c \<in> set ''ABCDEFGHIJKLMNOPQRSTUVWXYZabcdefghijklmnopqrstuvwxyz'')"

text \<open>\<open>x || 0\<close> on a table entry that is a count or missing.\<close>

definition orZero :: "nat option \<Rightarrow> nat" where
  "orZero v = (case v of None \<Rightarrow> 0 | Some n \<Rightarrow> n)"

text \<open>
  The frequency table built by \<open>letters.forEach(letter => count[letter] = (count[letter] || 0) + 1)\<close>.
  The object is an association list with one entry per key, new keys at the end.
\<close>

definition countStep :: "(char \<times> nat) list \<Rightarrow> char \<Rightarrow> (char \<times> nat) list" where
  "countStep counts letter = AList.update letter (orZero (map_of counts letter) + 1) counts"

definition countLetters :: "string \<Rightarrow> (char \<times> nat) list" where
  "countLetters letters = foldl countStep [] letters"

text \<open>
  The loop over \<open>Object.keys(guessCount)\<close>. The order in which a JavaScript object lists
  its keys does not matter to the sum.
\<close>

definition commonStep :: "(char \<times> nat) list \<Rightarrow> (char \<times> nat) list \<Rightarrow> nat \<Rightarrow> char \<Rightarrow> nat" where
  "commonStep hostCount guessCount commonLetters letter =
     (if orZero (map_of hostCount letter) \<noteq> 0
      then commonLetters + min (orZero (map_of hostCount letter)) (orZero (map_of guessCount letter))
      else commonLetters)"

definition calculateCommonLetters :: "string \<Rightarrow> string \<Rightarrow> nat" where
  "calculateCommonLetters hostWord guessWord =
     (let hostLetters = toLowerCase hostWord;
          guessLetters = toLowerCase guessWord;
          hostCount = countLetters hostLetters;
          guessCount = countLetters guessLetters
      in foldl (commonStep hostCount guessCount) 0 (map fst guessCount))"

definition isWordCorrect :: "string \<Rightarrow> string \<Rightarrow> bool" where
  "isWordCorrect hostWord guessWord = (toLowerCase hostWord = toLowerCase guessWord)"

text \<open>
  \<open>generateGameId\<close> is \<open>Math.random().toString(36).substring(2, 8).toUpperCase()\<close>. The
  randomness input of the model is the string \<open>r\<close> that \<open>Math.random().toString(36)\<close>
  returns. For a number in \<open>[0, 1)\<close> that string is \<open>0\<close>, or \<open>0.\<close> followed by one or
  more digits of radix 36 (\<open>0-9\<close>, \<open>a-z\<close>): \<open>radix36Fraction\<close>.
\<close>

definition radix36Digit :: "char \<Rightarrow> bool" where
  "radix36Digit c =
     (let n = charCode c in (48 \<le> n \<and> n \<le> 57) \<or> (97 \<le> n \<and> n \<le> 122))"

definition radix36Fraction :: "string \<Rightarrow> bool" where
  "radix36Fraction r =
     (r = ''0'' \<or> (take 2 r = ''0.'' \<and> drop 2 r \<noteq> [] \<and> list_all radix36Digit (drop 2 r)))"

definition generateGameId :: "string \<Rightarrow> string" where
  "generateGameId r = toUpperCase (substring 2 8 r)"

definition digitOrUpper :: "char \<Rightarrow> bool" where
  "digitOrUpper c = (c \<in> set ''0123456789ABCDEFGHIJKLMNOPQRSTUVWXYZ'')"

section \<open>Data model (game-logic)\<close>

datatype SessionStatus = SWaiting | SPlaying | SFinished

datatype PlayerStatus = PPlaying | PFinished | PDisconnected

record Guess =
  word :: string
  commonLetters :: nat
  timestamp :: int

text \<open>The field \<open>id\<close> of the source is \<open>ident\<close>, its \<open>status\<close> is \<open>pstatus\<close>.\<close>

record Player =
  ident :: string
  name :: string
  guesses :: "Guess list"
  timeUsed :: int
  pstatus :: PlayerStatus
  joinedAt :: int

record GameState =
  gameId :: string
  hostWord :: string
  players :: "Player list"
  status :: SessionStatus
  startTime :: "int option"

section \<open>Session manager (p2p-game-manager, the BroadcastChannel variant)\<close>

text \<open>
  The messages the manager hands to the transport, in the order of the calls:
  \<open>broadcast(type, data)\<close> for all but \<open>ErrorMsg\<close>, which is \<open>send(peerId, 'game:error', text)\<close>.
  The handlers of this section return the manager they leave and these messages; the
  transport is taken to accept them (its channel is open or absent). \<open>send\<close> has no
  addressed delivery: it posts its message on the channel for every peer, the target and
  the characters of the text being fields of the data.
\<close>

datatype Message =
    StateMsg GameState
  | PlayerJoinedMsg Player
  | GuessMsg string Guess
  | FinishedMsg string int
  | ErrorMsg string string
  | JoinRequestMsg Player
  | LeaveMsg string
  | TerminatedMsg

record P2PGameManager =
  gameState :: "GameState option"
  isHost :: bool
  currentPlayerId :: "string option"

text \<open>
  \<open>players.find(p => ...)\<close> returns the first matching object, and the handlers mutate
  that object in place: \<open>updateFirst\<close> rewrites the first match inside the array.
\<close>

fun updateFirst :: "('a \<Rightarrow> bool) \<Rightarrow> ('a \<Rightarrow> 'a) \<Rightarrow> 'a list \<Rightarrow> 'a list" where
  "updateFirst P f [] = []"
| "updateFirst P f (x # xs) = (if P x then f x # xs else x # updateFirst P f xs)"

text \<open>The snapshot that \<open>broadcastGameState\<close> builds: \<open>{...gameState, hostWord: isHost ? gameState.hostWord : '****'}\<close>.\<close>

definition safeGameState :: "bool \<Rightarrow> GameState \<Rightarrow> GameState" where
  "safeGameState host gs = gs\<lparr>hostWord := (if host then hostWord gs else ''****'')\<rparr>"

definition broadcastGameState :: "P2PGameManager \<Rightarrow> Message list" where
  "broadcastGameState m =
     (case gameState m of
        None \<Rightarrow> []
      | Some gs \<Rightarrow> [StateMsg (safeGameState (isHost m) gs)])"

text \<open>
  \<open>startTime ? Math.floor((Date.now() - startTime) / 1000) : 0\<close>. A missing start time
  and the number 0 are both falsy. On integers \<open>div\<close> rounds down, as \<open>Math.floor\<close> does.
\<close>

definition elapsedSeconds :: "int option \<Rightarrow> int \<Rightarrow> int" where
  "elapsedSeconds start now =
     (case start of
        None \<Rightarrow> 0
      | Some s \<Rightarrow> if s \<noteq> 0 then (now - s) div 1000 else 0)"

text \<open>
  \<open>handlePlayerGuess(playerId, guess)\<close> at clock reading \<open>now\<close> (the handler runs to
  completion, its readings of \<open>Date.now()\<close> are one value).
\<close>

definition handlePlayerGuess ::
    "int \<Rightarrow> string \<Rightarrow> Guess \<Rightarrow> P2PGameManager \<Rightarrow> P2PGameManager \<times> Message list" where
  "handlePlayerGuess now playerId guess m =
     (case gameState m of
        None \<Rightarrow> (m, [])
      | Some gs \<Rightarrow>
          if \<not> isHost m then (m, [])
          else
            (case find (\<lambda>p. ident p = playerId) (players gs) of
               None \<Rightarrow> (m, [])
             | Some player \<Rightarrow>
                 if pstatus player = PFinished then (m, [])
                 else if \<not> validateWord (word guess)
                 then (m, [ErrorMsg playerId ''Invalid word. Must be a 5-letter word.''])
                 else
                   let common = calculateCommonLetters (hostWord gs) (toUpperCase (word guess));
                       used = elapsedSeconds (startTime gs) now;
                       processedGuess =
                         \<lparr>word = toUpperCase (word guess), commonLetters = common, timestamp = now\<rparr>;
                       ps1 = updateFirst (\<lambda>p. ident p = playerId)
                               (\<lambda>p. p\<lparr>guesses := guesses p @ [processedGuess], timeUsed := used\<rparr>)
                               (players gs)
                   in
                     if isWordCorrect (hostWord gs) (word guess)
                     then
                       let ps2 = updateFirst (\<lambda>p. ident p = playerId)
                                   (\<lambda>p. p\<lparr>pstatus := PFinished\<rparr>) ps1;
                           activePlayers = filter (\<lambda>p. pstatus p \<noteq> PDisconnected) ps2;
                           finishedPlayers = filter (\<lambda>p. pstatus p = PFinished) activePlayers;
                           gs2 = gs\<lparr>players := ps2,
                                    status := (if length finishedPlayers = length activePlayers
                                               then SFinished else status gs)\<rparr>;
                           m2 = m\<lparr>gameState := Some gs2\<rparr>
                       in (m2, [FinishedMsg playerId used, GuessMsg playerId processedGuess]
                                 @ broadcastGameState m2)
                     else
                       let m1 = m\<lparr>gameState := Some (gs\<lparr>players := ps1\<rparr>)\<rparr>
                       in (m1, [GuessMsg playerId processedGuess] @ broadcastGameState m1)))"

definition handleJoinRequest :: "Player \<Rightarrow> P2PGameManager \<Rightarrow> P2PGameManager \<times> Message list" where
  "handleJoinRequest player m =
     (case gameState m of
        None \<Rightarrow> (m, [])
      | Some gs \<Rightarrow>
          if \<not> isHost m then (m, [])
          else
            (case find (\<lambda>p. name p = name player) (players gs) of
               Some existingPlayer \<Rightarrow>
                 (m, [ErrorMsg (ident player) ''Player name already taken in this game.''])
             | None \<Rightarrow>
                 let m1 = m\<lparr>gameState := Some (gs\<lparr>players := players gs @ [player]\<rparr>)\<rparr>
                 in (m1, [PlayerJoinedMsg player] @ broadcastGameState m1)))"

text \<open>\<open>handlePlayerJoined(player)\<close> at clock reading \<open>now\<close>.\<close>

definition handlePlayerJoined ::
    "int \<Rightarrow> Player \<Rightarrow> P2PGameManager \<Rightarrow> P2PGameManager \<times> Message list" where
  "handlePlayerJoined now player m =
     (case gameState m of
        None \<Rightarrow> (m, [])
      | Some gs \<Rightarrow>
          if \<not> isHost m then (m, [])
          else
            (case find (\<lambda>p. name p = name player) (players gs) of
               Some existingPlayer \<Rightarrow>
                 (m, [ErrorMsg (ident player) ''Player name already taken in this game.''])
             | None \<Rightarrow>
                 let gs1 = gs\<lparr>players := players gs @ [player]\<rparr>;
                     gs2 = (if length (players gs1) \<ge> 2 \<and> status gs1 = SWaiting
                            then gs1\<lparr>status := SPlaying, startTime := Some now\<rparr>
                            else gs1);
                     m2 = m\<lparr>gameState := Some gs2\<rparr>
                 in (m2, broadcastGameState m2 @ [PlayerJoinedMsg player])))"

definition handlePlayerLeft :: "string \<Rightarrow> P2PGameManager \<Rightarrow> P2PGameManager \<times> Message list" where
  "handlePlayerLeft playerId m =
     (case gameState m of
        None \<Rightarrow> (m, [])
      | Some gs \<Rightarrow>
          (case find (\<lambda>p. ident p = playerId) (players gs) of
             None \<Rightarrow> (m, [])
           | Some player \<Rightarrow>
               let m1 = m\<lparr>gameState := Some (gs\<lparr>players :=
                            updateFirst (\<lambda>p. ident p = playerId)
                              (\<lambda>p. p\<lparr>pstatus := PDisconnected\<rparr>) (players gs)\<rparr>)\<rparr>
               in (m1, if isHost m1 then broadcastGameState m1 else [])))"

datatype Error =
    InvalidHostWord
  | PlayerNameRequired
  | GameNotFound
  | CannotReconnect
  | InvalidStateError

text \<open>\<open>String.prototype.trim\<close> on code units below 256: tab, line feed, vertical tab, form
  feed, carriage return, space and no-break space are white space.\<close>

definition isWhiteSpace :: "char \<Rightarrow> bool" where
  "isWhiteSpace c = (charCode c \<in> {9, 10, 11, 12, 13, 32, 160})"

definition trim :: "string \<Rightarrow> string" where
  "trim s = rev (dropWhile isWhiteSpace (rev (dropWhile isWhiteSpace s)))"

text \<open>
  \<open>createGame(hostWord, playerName)\<close> as far as the manager's own fields go: \<open>myIdent\<close>
  is what \<open>broadcastManager.getMyId()\<close> returns, \<open>r\<close> the randomness input of
  \<open>generateGameId\<close>, \<open>now\<close> the clock. The result is the manager, the messages handed to
  the transport and the game id returned. What the call writes into the transport and
  into \<open>localStorage\<close> is not part of this record.
\<close>

definition createGame ::
    "string \<Rightarrow> string \<Rightarrow> int \<Rightarrow> string \<Rightarrow> string \<Rightarrow> P2PGameManager
       \<Rightarrow> Error + (P2PGameManager \<times> Message list \<times> string)" where
  "createGame myIdent r now hostWd playerName m =
     (if \<not> validateWord hostWd then Inl InvalidHostWord
      else if trim playerName = [] then Inl PlayerNameRequired
      else
        let gid = generateGameId r;
            hostPlayer = \<lparr>ident = myIdent, name = trim playerName, guesses = [], timeUsed = 0,
                          pstatus = PPlaying, joinedAt = now\<rparr>;
            gs = \<lparr>gameId = gid, hostWord = toUpperCase hostWd, players = [hostPlayer],
                  status = SWaiting, startTime = Some now\<rparr>;
            m1 = \<lparr>gameState = Some gs, isHost = True, currentPlayerId = Some myIdent\<rparr>
        in Inr (m1, broadcastGameState m1, gid))"

section \<open>Transport and durable records (broadcast-manager, localStorage)\<close>

text \<open>
  The \<open>BroadcastManager\<close> singleton. \<open>channel\<close> is the name of the \<open>BroadcastChannel\<close> held in
  \<open>this.channel\<close>; \<open>cleanup\<close> closes the channel and keeps the reference, which
  \<open>channelClosed\<close> records: \<open>postMessage\<close> on a closed channel throws. \<open>posted\<close> is the log
  of the messages posted, each with the name of its channel, oldest first.
\<close>

record BroadcastManager =
  channel :: "string option"
  channelClosed :: bool
  bmIsHost :: bool
  bmGameId :: "string option"
  myId :: string
  posted :: "(string \<times> Message) list"

text \<open>One browsing context: the two singletons and \<open>localStorage\<close>.\<close>

record Page =
  mgr :: P2PGameManager
  bm :: BroadcastManager
  storage :: "string \<rightharpoonup> string"

text \<open>A string or \<open>null\<close> in a condition: \<open>null\<close> and the empty string are falsy.\<close>

definition truthy :: "string option \<Rightarrow> bool" where
  "truthy v = (case v of None \<Rightarrow> False | Some s \<Rightarrow> s \<noteq> [])"

definition hostKey :: "string \<Rightarrow> string" where
  "hostKey gid = ''jotto-host-'' @ gid"

definition gameKey :: "string \<Rightarrow> string" where
  "gameKey gid = ''jotto-game-'' @ gid"

definition nameKey :: "string \<Rightarrow> string" where
  "nameKey gid = ''jotto-player-name-'' @ gid"


definition bmBroadcast :: "Message \<Rightarrow> BroadcastManager \<Rightarrow> Error + BroadcastManager" where
  "bmBroadcast msg b =
     (case channel b of
        None \<Rightarrow> Inr b
      | Some c \<Rightarrow>
          if channelClosed b then Inl InvalidStateError
          else Inr (b\<lparr>posted := posted b @ [(c, msg)]\<rparr>))"




text \<open>\<open>BroadcastManager.joinGame(gameId)\<close> in a browser.\<close>

definition bmJoinGame ::
    "string \<Rightarrow> BroadcastManager \<Rightarrow> (string \<rightharpoonup> string) \<Rightarrow> Error + BroadcastManager" where
  "bmJoinGame gid b st =
     (if \<not> truthy (st (hostKey gid)) then Inl GameNotFound
      else Inr (b\<lparr>bmGameId := Some gid, channel := Some (gameKey gid), channelClosed := False\<rparr>))"

text \<open>\<open>P2PGameManager.joinGame(gameId, playerName)\<close> at clock reading \<open>now\<close>.\<close>

definition joinGame :: "int \<Rightarrow> string \<Rightarrow> string \<Rightarrow> Page \<Rightarrow> (Error + unit) \<times> Page" where
  "joinGame now gid playerName pg =
     (if trim playerName = [] then (Inl PlayerNameRequired, pg)
      else
        let pg1 = pg\<lparr>mgr := (mgr pg)\<lparr>currentPlayerId := Some (myId (bm pg))\<rparr>\<rparr>;
            newPlayer = \<lparr>ident = myId (bm pg), name = trim playerName, guesses = [], timeUsed = 0,
                         pstatus = PPlaying, joinedAt = now\<rparr>
        in
          (case bmJoinGame gid (bm pg1) (storage pg1) of
             Inl e \<Rightarrow> (Inl e, pg1)
           | Inr b1 \<Rightarrow>
               let pg2 = pg1\<lparr>bm := b1, storage := (storage pg1)(nameKey gid \<mapsto> trim playerName)\<rparr>
               in (case bmBroadcast (JoinRequestMsg newPlayer) (bm pg2) of
                     Inl e \<Rightarrow> (Inl e, pg2)
                   | Inr b2 \<Rightarrow> (Inr (), pg2\<lparr>bm := b2\<rparr>))))"




section \<open>Runs of the host\<close>

text \<open>
  The events the host's manager handles, each with the clock reading \<open>Date.now()\<close> returns
  while it is handled: the two join admissions, a guess and a departure.
\<close>

datatype Event =
    JoinRequest int Player
  | PlayerJoined int Player
  | GuessEv int string Guess
  | PlayerLeft int string


fun step :: "P2PGameManager \<Rightarrow> Event \<Rightarrow> P2PGameManager" where
  "step m (JoinRequest t p) = fst (handleJoinRequest p m)"
| "step m (PlayerJoined t p) = fst (handlePlayerJoined t p m)"
| "step m (GuessEv t i g) = fst (handlePlayerGuess t i g m)"
| "step m (PlayerLeft t i) = fst (handlePlayerLeft i m)"

definition run :: "P2PGameManager \<Rightarrow> Event list \<Rightarrow> P2PGameManager" where
  "run m evs = foldl step m evs"

text \<open>The \<open>timeUsed\<close> of the players and the session status, in the order of the array.\<close>

definition timesUsed :: "P2PGameManager \<Rightarrow> int list" where
  "timesUsed m = (case gameState m of None \<Rightarrow> [] | Some gs \<Rightarrow> map timeUsed (players gs))"

definition sessionStatus :: "P2PGameManager \<Rightarrow> SessionStatus option" where
  "sessionStatus m = map_option status (gameState m)"


definition isPlayerJoined :: "Event \<Rightarrow> bool" where
  "isPlayerJoined e =
     (case e of
        JoinRequest t p \<Rightarrow> False
      | PlayerJoined t p \<Rightarrow> True
      | GuessEv t i g \<Rightarrow> False
      | PlayerLeft t i \<Rightarrow> False)"



text \<open>
  \<open>handlePlayerJoined\<close> stamps \<open>startTime\<close> anew when it admits a player to a waiting
  session. Along a run that is harmless when every such event finds no time recorded yet:
  no player has a \<open>timeUsed\<close> above 0. A run without \<open>PlayerJoined\<close> events is of this
  kind, and so is every run of the events that reach a host, since no transport delivers
  \<open>game:player-joined\<close> to the process that hosts the game.
\<close>

fun restampHarmless :: "P2PGameManager \<Rightarrow> Event list \<Rightarrow> bool" where
  "restampHarmless m [] = True"
| "restampHarmless m (e # evs) =
     ((isPlayerJoined e \<and> sessionStatus m = Some SWaiting
         \<longrightarrow> list_all (\<lambda>t. t \<le> 0) (timesUsed m))
      \<and> restampHarmless (step m e) evs)"

text \<open>
  The check of the session in the words of the specification: every player whose status
  is not \<open>disconnected\<close> has status \<open>finished\<close>. A manager is finished when due if its
  session is \<open>finished\<close> whenever that holds.
\<close>

definition everyActivePlayerFinished :: "GameState \<Rightarrow> bool" where
  "everyActivePlayerFinished gs =
     list_all (\<lambda>p. pstatus p = PDisconnected \<or> pstatus p = PFinished) (players gs)"



section \<open>The scoring engine: word format, common letters, game ids\<close>

lemma classPlusEnd_iff: "classPlusEnd w \<longleftrightarrow> w \<noteq> [] \<and> (\<forall>c\<in>set w. inClassAZaz c)"
  by (induction w) auto

lemma inClassAZaz_alphabetic: "inClassAZaz c \<longleftrightarrow> alphabetic c"
  by (cases c) (simp add: inClassAZaz_def alphabetic_def charCode_def)

text \<open>
  C8. \<open>validateWord\<close> returns true exactly for the words of five characters that are all
  letters of the alphabet, in either case: a word of another length or with a character
  that is not a letter is rejected, a five-letter word in mixed case is accepted.
\<close>

theorem validateWord_iff:
  "validateWord w \<longleftrightarrow> length w = 5 \<and> (\<forall>c\<in>set w. alphabetic c)"
  by (auto simp: validateWord_def classPlusEnd_iff inClassAZaz_alphabetic)

theorem validateWord_iff_witness:
  "validateWord ''HoUsE'' \<and> length ''HoUsE'' = 5 \<and> list_all alphabetic ''HoUsE''
   \<and> \<not> validateWord ''HoUs1'' \<and> \<not> list_all alphabetic ''HoUs1''
   \<and> \<not> validateWord ''HOUSES'' \<and> length ''HOUSES'' \<noteq> 5"
  using validateWord_iff [of "''HoUsE''"] validateWord_iff [of "''HoUs1''"]
    validateWord_iff [of "''HOUSES''"]
  by (simp add: alphabetic_def)

lemma orZero_countStep:
  "orZero (map_of (countStep counts letter) c) =
     orZero (map_of counts c) + (if c = letter then 1 else 0)"
  by (simp add: countStep_def update_conv orZero_def)

lemma orZero_foldl_countStep:
  "orZero (map_of (foldl countStep acc xs) c) = orZero (map_of acc c) + count (mset xs) c"
  by (induction xs arbitrary: acc) (simp_all add: orZero_countStep)

lemma distinct_foldl_countStep:
  "distinct (map fst acc) \<Longrightarrow> distinct (map fst (foldl countStep acc xs))"
  by (induction xs arbitrary: acc) (simp_all add: countStep_def distinct_update)

lemma keys_foldl_countStep:
  "fst ` set (foldl countStep acc xs) = fst ` set acc \<union> set xs"
  by (induction xs arbitrary: acc) (simp_all add: countStep_def dom_update)

lemma foldl_commonStep:
  "foldl (commonStep h g) a ks =
     a + sum_list (map (\<lambda>k. min (orZero (map_of h k)) (orZero (map_of g k))) ks)"
  by (induction ks arbitrary: a) (simp_all add: commonStep_def)

lemma size_inter_sum:
  "size (A \<inter># B) = (\<Sum>k\<in>set_mset B. min (count A k) (count B k))"
proof -
  have "size (A \<inter># B) = (\<Sum>k\<in>set_mset (A \<inter># B). count (A \<inter># B) k)"
    by (simp add: size_multiset_overloaded_eq)
  also have "\<dots> = (\<Sum>k\<in>set_mset B. count (A \<inter># B) k)"
    by (rule sum.mono_neutral_left) (auto simp: not_in_iff)
  finally show ?thesis by simp
qed

text \<open>The loop computes the size of the intersection of the two multisets of letters.\<close>

lemma calculateCommonLetters_inter:
  "calculateCommonLetters h g = size (mset (toLowerCase h) \<inter># mset (toLowerCase g))"
proof -
  let ?H = "toLowerCase h" and ?G = "toLowerCase g"
  have d: "distinct (map fst (countLetters ?G))"
    by (simp add: countLetters_def distinct_foldl_countStep)
  have s: "set (map fst (countLetters ?G)) = set ?G"
    by (simp add: countLetters_def keys_foldl_countStep)
  have c: "orZero (map_of (countLetters w) k) = count (mset w) k" for w k
    using orZero_foldl_countStep [of "[]" w k] by (simp add: countLetters_def orZero_def)
  have "calculateCommonLetters h g =
      sum_list (map (\<lambda>k. min (count (mset ?H) k) (count (mset ?G) k)) (map fst (countLetters ?G)))"
    by (simp add: calculateCommonLetters_def Let_def foldl_commonStep c)
  also have "\<dots> = (\<Sum>k\<in>set ?G. min (count (mset ?H) k) (count (mset ?G) k))"
    using d s by (metis sum_list_distinct_conv_sum_set)
  finally show ?thesis by (simp add: size_inter_sum)
qed

lemma inter_full_size:
  assumes "size (A \<inter># B) = size A" and "size A = size B"
  shows "A = B"
proof -
  have a: "A \<inter># B = A"
  proof (rule ccontr)
    assume "A \<inter># B \<noteq> A"
    then have "A \<inter># B \<subset># A" by (simp add: subset_mset.less_le)
    then have "size (A \<inter># B) < size A" by (rule mset_subset_size)
    with assms show False by simp
  qed
  have b: "A \<inter># B = B"
  proof (rule ccontr)
    assume "A \<inter># B \<noteq> B"
    then have "A \<inter># B \<subset># B" by (simp add: subset_mset.less_le)
    then have "size (A \<inter># B) < size B" by (rule mset_subset_size)
    with assms show False by simp
  qed
  from a b show ?thesis by simp
qed

text \<open>
  C5. For a secret and a guess of five characters each, \<open>calculateCommonLetters\<close> is at
  most 5, does not change when its arguments are swapped, and is 5 exactly when the two
  words are anagrams: their letters, which the function compares in lower case, form the
  same multiset.
\<close>

theorem calculateCommonLetters_props:
  assumes "length secret = 5" and "length guess = 5"
  shows "calculateCommonLetters secret guess \<le> 5
       \<and> calculateCommonLetters secret guess = calculateCommonLetters guess secret
       \<and> (calculateCommonLetters secret guess = 5
            \<longleftrightarrow> mset (toLowerCase secret) = mset (toLowerCase guess))"
proof -
  let ?A = "mset (toLowerCase secret)" and ?B = "mset (toLowerCase guess)"
  have sa: "size ?A = 5" and sb: "size ?B = 5"
    using assms by (simp_all add: toLowerCase_def)
  have "size (?A \<inter># ?B) \<le> size ?A"
    by (rule size_mset_mono) simp
  then have le: "calculateCommonLetters secret guess \<le> 5"
    using sa by (simp add: calculateCommonLetters_inter)
  have sym: "calculateCommonLetters secret guess = calculateCommonLetters guess secret"
    by (simp add: calculateCommonLetters_inter multiset_inter_commute)
  have iff: "calculateCommonLetters secret guess = 5 \<longleftrightarrow> ?A = ?B"
  proof
    assume "calculateCommonLetters secret guess = 5"
    then have "size (?A \<inter># ?B) = size ?A" using sa by (simp add: calculateCommonLetters_inter)
    then show "?A = ?B" using sa sb by (intro inter_full_size) simp_all
  next
    assume "?A = ?B"
    then show "calculateCommonLetters secret guess = 5"
      using sa by (simp add: calculateCommonLetters_inter)
  qed
  from le sym iff show ?thesis by simp
qed

theorem calculateCommonLetters_props_witness:
  "length ''HOUSE'' = 5 \<and> length ''SHOUE'' = 5
   \<and> calculateCommonLetters ''HOUSE'' ''SHOUE'' = 5
   \<and> calculateCommonLetters ''SHOUE'' ''HOUSE'' = 5
   \<and> ''HOUSE'' \<noteq> ''SHOUE''"
proof -
  have m: "mset (toLowerCase ''HOUSE'') = mset (toLowerCase ''SHOUE'')"
    by (simp add: toLowerCase_def toLowerChar_def charCode_def char_of_def bit_0)
  show ?thesis
    using m calculateCommonLetters_props [of "''HOUSE''" "''SHOUE''"] by simp
qed

lemma radix36Digit_set:
  "radix36Digit c \<longleftrightarrow> c \<in> set ''0123456789abcdefghijklmnopqrstuvwxyz''"
  by (cases c) (simp add: radix36Digit_def charCode_def)

lemma toUpperChar_digit: "radix36Digit c \<Longrightarrow> digitOrUpper (toUpperChar c)"
  unfolding radix36Digit_set
  by (auto simp: digitOrUpper_def toUpperChar_def charCode_def char_of_def bit_0)

lemma generateGameId_chars:
  assumes "radix36Fraction r"
  shows "length (generateGameId r) \<le> 6 \<and> list_all digitOrUpper (generateGameId r)"
proof -
  have len: "length (generateGameId r) \<le> 6"
    by (simp add: generateGameId_def toUpperCase_def substring_def)
  have "list_all radix36Digit (drop 2 r)"
    using assms by (auto simp: radix36Fraction_def)
  then have "list_all radix36Digit (take 6 (drop 2 r))"
    by (auto simp: list_all_iff dest: in_set_takeD)
  then have "list_all digitOrUpper (generateGameId r)"
    by (auto simp: generateGameId_def toUpperCase_def substring_def list_all_iff
        toUpperChar_digit)
  with len show ?thesis by simp
qed

lemma generateGameId_half:
  "radix36Fraction ''0.i'' \<and> generateGameId ''0.i'' = ''I''"
  by (simp add: radix36Fraction_def radix36Digit_def generateGameId_def toUpperCase_def
      substring_def toUpperChar_def charCode_def char_of_def bit_0)

text \<open>
  C10. Whatever the randomness input, \<open>generateGameId\<close> returns at most six characters,
  all of them digits or capital letters; and some inputs give fewer than six (one half,
  printed \<open>0.i\<close> in radix 36, gives the single character \<open>I\<close>), so the length is not fixed.
\<close>

theorem generateGameId_length_chars:
  "(radix36Fraction r \<longrightarrow>
      length (generateGameId r) \<le> 6 \<and> list_all digitOrUpper (generateGameId r))
   \<and> (\<exists>r'. radix36Fraction r' \<and> length (generateGameId r') < 6)"
proof -
  have "\<exists>r'. radix36Fraction r' \<and> length (generateGameId r') < 6"
    using generateGameId_half by (intro exI [of _ "''0.i''"]) simp
  then show ?thesis using generateGameId_chars by blast
qed

theorem generateGameId_length_chars_witness:
  "radix36Fraction ''0.k3j9x2abc''
   \<and> generateGameId ''0.k3j9x2abc'' = ''K3J9X2''
   \<and> length (generateGameId ''0.k3j9x2abc'') \<le> 6
   \<and> list_all digitOrUpper (generateGameId ''0.k3j9x2abc'')"
proof -
  have h: "radix36Fraction ''0.k3j9x2abc''"
    by (simp add: radix36Fraction_def radix36Digit_def charCode_def)
  have v: "generateGameId ''0.k3j9x2abc'' = ''K3J9X2''"
    by (simp add: generateGameId_def toUpperCase_def substring_def toUpperChar_def
        charCode_def char_of_def bit_0)
  show ?thesis
    using h v generateGameId_length_chars [of "''0.k3j9x2abc''"] by simp
qed

section \<open>The session manager\<close>

lemmas evalChars = charCode_def char_of_def bit_0 toLowerCase_def toLowerChar_def
  toUpperCase_def toUpperChar_def

lemmas evalWords = validateWord_def inClassAZaz_def isWordCorrect_def
  calculateCommonLetters_def countLetters_def countStep_def commonStep_def orZero_def

lemmas evalHandlers = run_def handlePlayerGuess_def handleJoinRequest_def
  handlePlayerJoined_def handlePlayerLeft_def broadcastGameState_def safeGameState_def
  elapsedSeconds_def Let_def

lemma find_name_None: "find (\<lambda>p. name p = n) ps = None \<longleftrightarrow> n \<notin> set (map name ps)"
  by (auto simp: find_None_iff)

lemma find_name_Some: "n \<in> set (map name ps) \<Longrightarrow> \<exists>q. find (\<lambda>p. name p = n) ps = Some q"
  using find_name_None [of n ps] by (cases "find (\<lambda>p. name p = n) ps") auto

lemma broadcastGameState_host:
  "isHost m \<Longrightarrow> gameState m = Some gs \<Longrightarrow> broadcastGameState m = [StateMsg gs]"
  by (simp add: broadcastGameState_def safeGameState_def)

text \<open>
  C1. The claim is that every snapshot the host broadcasts carries \<open>****\<close> in \<open>hostWord\<close>.
  The code masks by the role of the sender: a host, the only process that broadcasts
  snapshots, sends the state as it is. Creating a game with the secret \<open>house\<close> broadcasts
  a first snapshot whose \<open>hostWord\<close> is \<open>HOUSE\<close>.
\<close>

theorem createGame_broadcasts_secret:
  "createGame ''host1'' ''0.k3j9x2abc'' 1700000000000 ''house'' ''Alice''
       \<lparr>gameState = None, isHost = False, currentPlayerId = None\<rparr>
     = Inr (\<lparr>gameState = Some \<lparr>gameId = ''K3J9X2'', hostWord = ''HOUSE'',
               players = [\<lparr>ident = ''host1'', name = ''Alice'', guesses = [], timeUsed = 0,
                            pstatus = PPlaying, joinedAt = 1700000000000\<rparr>],
               status = SWaiting, startTime = Some 1700000000000\<rparr>,
             isHost = True, currentPlayerId = Some ''host1''\<rparr>,
            [StateMsg \<lparr>gameId = ''K3J9X2'', hostWord = ''HOUSE'',
               players = [\<lparr>ident = ''host1'', name = ''Alice'', guesses = [], timeUsed = 0,
                            pstatus = PPlaying, joinedAt = 1700000000000\<rparr>],
               status = SWaiting, startTime = Some 1700000000000\<rparr>],
            ''K3J9X2'')"
  by (simp add: createGame_def trim_def isWhiteSpace_def generateGameId_def substring_def
      broadcastGameState_def safeGameState_def Let_def evalWords evalChars)

text \<open>
  C3. The claim is that the session goes from \<open>waiting\<close> to \<open>playing\<close> at the admission of
  the second player, whichever handler admits, and never later. \<open>handlePlayerJoined\<close>
  starts the game, \<open>handleJoinRequest\<close>, which handles the join requests that \<open>joinGame\<close>
  sends, does not: after Bob's request the session of two players is still \<open>waiting\<close>
  with the start time of its creation, and the admission of a third player, Carol, by
  \<open>handlePlayerJoined\<close> is the one that starts it.
\<close>

theorem joinRequest_does_not_start:
  "map_option (\<lambda>gs. (map name (players gs), status gs, startTime gs))
     (gameState (run
       \<lparr>gameState = Some \<lparr>gameId = ''K3J9X2'', hostWord = ''HOUSE'',
          players = [\<lparr>ident = ''host1'', name = ''Alice'', guesses = [], timeUsed = 0,
                       pstatus = PPlaying, joinedAt = 1700000000000\<rparr>],
          status = SWaiting, startTime = Some 1700000000000\<rparr>,
        isHost = True, currentPlayerId = Some ''host1''\<rparr>
       [JoinRequest 1700000010000
          \<lparr>ident = ''peer2'', name = ''Bob'', guesses = [], timeUsed = 0, pstatus = PPlaying,
            joinedAt = 1700000009000\<rparr>]))
     = Some ([''Alice'', ''Bob''], SWaiting, Some 1700000000000)
   \<and> map_option (\<lambda>gs. (map name (players gs), status gs, startTime gs))
     (gameState (run
       \<lparr>gameState = Some \<lparr>gameId = ''K3J9X2'', hostWord = ''HOUSE'',
          players = [\<lparr>ident = ''host1'', name = ''Alice'', guesses = [], timeUsed = 0,
                       pstatus = PPlaying, joinedAt = 1700000000000\<rparr>],
          status = SWaiting, startTime = Some 1700000000000\<rparr>,
        isHost = True, currentPlayerId = Some ''host1''\<rparr>
       [JoinRequest 1700000010000
          \<lparr>ident = ''peer2'', name = ''Bob'', guesses = [], timeUsed = 0, pstatus = PPlaying,
            joinedAt = 1700000009000\<rparr>,
        PlayerJoined 1700000040000
          \<lparr>ident = ''peer3'', name = ''Carol'', guesses = [], timeUsed = 0, pstatus = PPlaying,
            joinedAt = 1700000039000\<rparr>]))
     = Some ([''Alice'', ''Bob'', ''Carol''], SPlaying, Some 1700000040000)"
  by (simp add: evalHandlers)

lemma filter_all_iff:
  "length (filter Q (filter P xs)) = length (filter P xs) \<longleftrightarrow> (\<forall>x\<in>set xs. P x \<longrightarrow> Q x)"
proof -
  have "length (filter Q ys) = length ys \<longleftrightarrow> (\<forall>y\<in>set ys. Q y)" for ys :: "'a list"
    by (metis filter_id_conv length_filter_less order_less_irrefl)
  from this [of "filter P xs"] show ?thesis by auto
qed

lemma updateFirst_member:
  "find P xs = Some x \<Longrightarrow> f x \<in> set (updateFirst P f xs)"
  by (induction xs) (auto split: if_splits)

text \<open>
  The guess path does evaluate the check: when the host processes a guess of a player
  that is \<open>playing\<close> and afterwards every player that is not disconnected is finished,
  the session is \<open>finished\<close>.
\<close>

lemma handlePlayerGuess_finishes_session:
  assumes "isHost m" and "gameState m = Some gs"
    and "find (\<lambda>p. ident p = playerId) (players gs) = Some player"
    and "pstatus player = PPlaying"
    and "gameState (fst (handlePlayerGuess now playerId guess m)) = Some gs'"
    and "\<forall>p\<in>set (players gs'). pstatus p \<noteq> PDisconnected \<longrightarrow> pstatus p = PFinished"
  shows "status gs' = SFinished"
proof -
  let ?f = "\<lambda>p. p\<lparr>guesses := guesses p @
      [\<lparr>word = toUpperCase (word guess),
        commonLetters = calculateCommonLetters (hostWord gs) (toUpperCase (word guess)),
        timestamp = now\<rparr>], timeUsed := elapsedSeconds (startTime gs) now\<rparr>"
  let ?ps1 = "updateFirst (\<lambda>p. ident p = playerId) ?f (players gs)"
  let ?ps2 = "updateFirst (\<lambda>p. ident p = playerId) (\<lambda>p. p\<lparr>pstatus := PFinished\<rparr>) ?ps1"
  have in0: "player \<in> set (players gs)"
    using assms(3) by (auto simp: find_Some_iff)
  have in1: "?f player \<in> set ?ps1"
    using assms(3) by (rule updateFirst_member)
  show ?thesis
  proof (cases "validateWord (word guess)")
    case False
    with assms in0 show ?thesis
      by (auto simp: handlePlayerGuess_def)
  next
    case True
    show ?thesis
    proof (cases "isWordCorrect (hostWord gs) (word guess)")
      case False
      with True assms(1-5) have p1: "players gs' = ?ps1"
        by (auto simp: handlePlayerGuess_def Let_def)
      have "?f player \<in> set (players gs')"
        using in1 by (simp only: p1)
      with assms(6)
      have "pstatus (?f player) \<noteq> PDisconnected \<longrightarrow> pstatus (?f player) = PFinished"
        by (rule bspec)
      with assms(4) show ?thesis by simp
    next
      case c: True
      define ps2 where "ps2 = ?ps2"
      from True c assms(1-5)
      have g: "players gs' = ps2"
        "status gs' = (if length (filter (\<lambda>p. pstatus p = PFinished)
                              (filter (\<lambda>p. pstatus p \<noteq> PDisconnected) ps2))
                          = length (filter (\<lambda>p. pstatus p \<noteq> PDisconnected) ps2)
                       then SFinished else status gs)"
        unfolding ps2_def by (auto simp: handlePlayerGuess_def Let_def)
      have "\<forall>p\<in>set ps2. pstatus p \<noteq> PDisconnected \<longrightarrow> pstatus p = PFinished"
        using assms(6) g(1) by simp
      then have "length (filter (\<lambda>p. pstatus p = PFinished)
                      (filter (\<lambda>p. pstatus p \<noteq> PDisconnected) ps2))
              = length (filter (\<lambda>p. pstatus p \<noteq> PDisconnected) ps2)"
        by (simp only: filter_all_iff)
      then show ?thesis
        by (simp add: g(2))
    qed
  qed
qed

text \<open>
  The other admission handler: \<open>handlePlayerJoined\<close> starts a waiting session at the
  admission of a player with a new name, and stamps the start time with its clock
  reading; a session that is not waiting keeps its status and its start time.
\<close>

lemma handlePlayerJoined_starts:
  assumes "isHost m" and "gameState m = Some gs"
    and "name player \<notin> set (map name (players gs))" and "players gs \<noteq> []"
    and "gameState (fst (handlePlayerJoined now player m)) = Some gs'"
  shows "players gs' = players gs @ [player]
       \<and> (status gs = SWaiting \<longrightarrow> status gs' = SPlaying \<and> startTime gs' = Some now)
       \<and> (status gs \<noteq> SWaiting \<longrightarrow> status gs' = status gs \<and> startTime gs' = startTime gs)"
proof -
  have "find (\<lambda>p. name p = name player) (players gs) = None"
    using assms(3) by (simp add: find_name_None)
  moreover have "2 \<le> length (players gs @ [player])"
    using assms(4) by (cases "players gs") simp_all
  ultimately show ?thesis
    using assms(1,2,5) by (auto simp: handlePlayerJoined_def Let_def)
qed






lemma admission_keeps_unfinished:
  "\<not> everyActivePlayerFinished gs \<Longrightarrow> \<not> everyActivePlayerFinished (gs\<lparr>players := players gs @ [p]\<rparr>)"
  by (simp add: everyActivePlayerFinished_def)






text \<open>
  Marking a player disconnected touches that player's status only: the status of the
  session stays as it is.
\<close>

lemma handlePlayerLeft_keeps_status:
  "sessionStatus (fst (handlePlayerLeft playerId m)) = sessionStatus m"
  by (simp add: handlePlayerLeft_def sessionStatus_def Let_def split: option.splits)

text \<open>
  C6. A guess for a player id that is not in the collection, or whose player is already
  \<open>finished\<close>, is a no-op: the manager, and with it the player's guesses and status and the
  whole game state, stays as it is, and nothing is sent.
\<close>

theorem handlePlayerGuess_noop:
  assumes "gameState m = Some gs"
    and "\<forall>p. find (\<lambda>p. ident p = playerId) (players gs) = Some p \<longrightarrow> pstatus p = PFinished"
  shows "handlePlayerGuess now playerId guess m = (m, [])"
  using assms by (simp add: handlePlayerGuess_def split: option.splits)

theorem handlePlayerGuess_noop_witness:
  "find (\<lambda>p. ident p = ''host1'')
      [\<lparr>ident = ''host1'', name = ''Alice'', guesses = [], timeUsed = 60, pstatus = PFinished,
         joinedAt = 1700000000000\<rparr>]
     = Some \<lparr>ident = ''host1'', name = ''Alice'', guesses = [], timeUsed = 60, pstatus = PFinished,
         joinedAt = 1700000000000\<rparr>
   \<and> handlePlayerGuess 1700000090000 ''host1''
       \<lparr>word = ''MOUSE'', commonLetters = 0, timestamp = 1700000090000\<rparr>
       \<lparr>gameState = Some \<lparr>gameId = ''K3J9X2'', hostWord = ''HOUSE'',
          players = [\<lparr>ident = ''host1'', name = ''Alice'', guesses = [], timeUsed = 60,
                       pstatus = PFinished, joinedAt = 1700000000000\<rparr>],
          status = SFinished, startTime = Some 1700000000000\<rparr>,
        isHost = True, currentPlayerId = Some ''host1''\<rparr>
     = (\<lparr>gameState = Some \<lparr>gameId = ''K3J9X2'', hostWord = ''HOUSE'',
          players = [\<lparr>ident = ''host1'', name = ''Alice'', guesses = [], timeUsed = 60,
                       pstatus = PFinished, joinedAt = 1700000000000\<rparr>],
          status = SFinished, startTime = Some 1700000000000\<rparr>,
        isHost = True, currentPlayerId = Some ''host1''\<rparr>, [])
   \<and> handlePlayerGuess 1700000090000 ''nobody''
       \<lparr>word = ''MOUSE'', commonLetters = 0, timestamp = 1700000090000\<rparr>
       \<lparr>gameState = Some \<lparr>gameId = ''K3J9X2'', hostWord = ''HOUSE'',
          players = [\<lparr>ident = ''host1'', name = ''Alice'', guesses = [], timeUsed = 60,
                       pstatus = PFinished, joinedAt = 1700000000000\<rparr>],
          status = SFinished, startTime = Some 1700000000000\<rparr>,
        isHost = True, currentPlayerId = Some ''host1''\<rparr>
     = (\<lparr>gameState = Some \<lparr>gameId = ''K3J9X2'', hostWord = ''HOUSE'',
          players = [\<lparr>ident = ''host1'', name = ''Alice'', guesses = [], timeUsed = 60,
                       pstatus = PFinished, joinedAt = 1700000000000\<rparr>],
          status = SFinished, startTime = Some 1700000000000\<rparr>,
        isHost = True, currentPlayerId = Some ''host1''\<rparr>, [])"
proof -
  let ?gs = "\<lparr>gameId = ''K3J9X2'', hostWord = ''HOUSE'',
          players = [\<lparr>ident = ''host1'', name = ''Alice'', guesses = [], timeUsed = 60,
                       pstatus = PFinished, joinedAt = 1700000000000\<rparr>],
          status = SFinished, startTime = Some 1700000000000\<rparr>"
  let ?m = "\<lparr>gameState = Some ?gs, isHost = True, currentPlayerId = Some ''host1''\<rparr>"
  let ?g = "\<lparr>word = ''MOUSE'', commonLetters = 0, timestamp = 1700000090000\<rparr>"
  show ?thesis
    using handlePlayerGuess_noop [of ?m ?gs "''host1''" 1700000090000 ?g]
      handlePlayerGuess_noop [of ?m ?gs "''nobody''" 1700000090000 ?g]
    by simp
qed

text \<open>
  C4, as claimed: a join request with the id of a player already in the collection adds no
  second record with that id. The admission compares names only. A page that asks to join
  twice, as Bob and as Bobby, sends its id in both requests; the host admits both, and
  two records carry the id.
\<close>

theorem join_same_id_counterexample:
  "map snd (posted (bm (snd (joinGame 1700000030000 ''K3J9X2'' ''Bobby''
       (snd (joinGame 1700000010000 ''K3J9X2'' ''Bob''
          \<lparr>mgr = \<lparr>gameState = None, isHost = False, currentPlayerId = None\<rparr>,
            bm = \<lparr>channel = None, channelClosed = False, bmIsHost = False, bmGameId = None,
                   myId = ''peer2'', posted = []\<rparr>,
            storage = [''jotto-host-K3J9X2'' \<mapsto> ''host1 K3J9X2 1700000000000'']\<rparr>))))))
     = [JoinRequestMsg \<lparr>ident = ''peer2'', name = ''Bob'', guesses = [], timeUsed = 0,
                         pstatus = PPlaying, joinedAt = 1700000010000\<rparr>,
        JoinRequestMsg \<lparr>ident = ''peer2'', name = ''Bobby'', guesses = [], timeUsed = 0,
                         pstatus = PPlaying, joinedAt = 1700000030000\<rparr>]
   \<and> map_option (map ident \<circ> players)
       (gameState (run
         \<lparr>gameState = Some \<lparr>gameId = ''K3J9X2'', hostWord = ''HOUSE'',
            players = [\<lparr>ident = ''host1'', name = ''Alice'', guesses = [], timeUsed = 0,
                         pstatus = PPlaying, joinedAt = 1700000000000\<rparr>],
            status = SWaiting, startTime = Some 1700000000000\<rparr>,
          isHost = True, currentPlayerId = Some ''host1''\<rparr>
         [JoinRequest 1700000010100
            \<lparr>ident = ''peer2'', name = ''Bob'', guesses = [], timeUsed = 0,
              pstatus = PPlaying, joinedAt = 1700000010000\<rparr>,
          JoinRequest 1700000030100
            \<lparr>ident = ''peer2'', name = ''Bobby'', guesses = [], timeUsed = 0,
              pstatus = PPlaying, joinedAt = 1700000030000\<rparr>]))
     = Some [''host1'', ''peer2'', ''peer2'']"
  by (simp add: joinGame_def bmJoinGame_def bmBroadcast_def truthy_def hostKey_def gameKey_def
      nameKey_def trim_def isWhiteSpace_def charCode_def run_def handleJoinRequest_def
      broadcastGameState_def safeGameState_def Let_def)

text \<open>
  C4, amended: on the host, a join request whose player name equals the name of a player
  already in the collection adds no record: either handler rejects it with an error
  message to the requester and leaves the state as it is. So the names of the players stay
  pairwise different after every join admission.
\<close>

theorem join_admission_names_unique:
  assumes "isHost m" and "gameState m = Some gs" and "distinct (map name (players gs))"
  shows "(name player \<in> set (map name (players gs)) \<longrightarrow>
            handleJoinRequest player m
              = (m, [ErrorMsg (ident player) ''Player name already taken in this game.''])
          \<and> handlePlayerJoined now player m
              = (m, [ErrorMsg (ident player) ''Player name already taken in this game.'']))
       \<and> (\<forall>gs'. gameState (fst (handleJoinRequest player m)) = Some gs'
              \<longrightarrow> distinct (map name (players gs')))
       \<and> (\<forall>gs'. gameState (fst (handlePlayerJoined now player m)) = Some gs'
              \<longrightarrow> distinct (map name (players gs')))"
proof (cases "name player \<in> set (map name (players gs))")
  case True
  then obtain q where "find (\<lambda>p. name p = name player) (players gs) = Some q"
    using find_name_Some by blast
  with assms True show ?thesis
    by (simp add: handleJoinRequest_def handlePlayerJoined_def)
next
  case False
  then have "find (\<lambda>p. name p = name player) (players gs) = None"
    by (simp add: find_name_None)
  with assms False show ?thesis
    by (auto simp: handleJoinRequest_def handlePlayerJoined_def Let_def)
qed

theorem join_admission_names_unique_witness:
  "distinct (map name
      [\<lparr>ident = ''host1'', name = ''Alice'', guesses = [], timeUsed = 0, pstatus = PPlaying,
         joinedAt = 1700000000000\<rparr>])
   \<and> handleJoinRequest
        \<lparr>ident = ''peer2'', name = ''Alice'', guesses = [], timeUsed = 0, pstatus = PPlaying,
          joinedAt = 1700000009000\<rparr>
        \<lparr>gameState = Some \<lparr>gameId = ''K3J9X2'', hostWord = ''HOUSE'',
           players = [\<lparr>ident = ''host1'', name = ''Alice'', guesses = [], timeUsed = 0,
                        pstatus = PPlaying, joinedAt = 1700000000000\<rparr>],
           status = SWaiting, startTime = Some 1700000000000\<rparr>,
         isHost = True, currentPlayerId = Some ''host1''\<rparr>
     = (\<lparr>gameState = Some \<lparr>gameId = ''K3J9X2'', hostWord = ''HOUSE'',
           players = [\<lparr>ident = ''host1'', name = ''Alice'', guesses = [], timeUsed = 0,
                        pstatus = PPlaying, joinedAt = 1700000000000\<rparr>],
           status = SWaiting, startTime = Some 1700000000000\<rparr>,
         isHost = True, currentPlayerId = Some ''host1''\<rparr>,
        [ErrorMsg ''peer2'' ''Player name already taken in this game.''])
   \<and> map_option (map name \<circ> players)
        (gameState (fst (handleJoinRequest
          \<lparr>ident = ''peer2'', name = ''Bob'', guesses = [], timeUsed = 0, pstatus = PPlaying,
            joinedAt = 1700000009000\<rparr>
          \<lparr>gameState = Some \<lparr>gameId = ''K3J9X2'', hostWord = ''HOUSE'',
             players = [\<lparr>ident = ''host1'', name = ''Alice'', guesses = [], timeUsed = 0,
                          pstatus = PPlaying, joinedAt = 1700000000000\<rparr>],
             status = SWaiting, startTime = Some 1700000000000\<rparr>,
           isHost = True, currentPlayerId = Some ''host1''\<rparr>)))
     = Some [''Alice'', ''Bob'']"
proof -
  let ?gs = "\<lparr>gameId = ''K3J9X2'', hostWord = ''HOUSE'',
           players = [\<lparr>ident = ''host1'', name = ''Alice'', guesses = [], timeUsed = 0,
                        pstatus = PPlaying, joinedAt = 1700000000000\<rparr>],
           status = SWaiting, startTime = Some 1700000000000\<rparr>"
  let ?m = "\<lparr>gameState = Some ?gs, isHost = True, currentPlayerId = Some ''host1''\<rparr>"
  have v: "map_option (map name \<circ> players)
        (gameState (fst (handleJoinRequest
          \<lparr>ident = ''peer2'', name = ''Bob'', guesses = [], timeUsed = 0, pstatus = PPlaying,
            joinedAt = 1700000009000\<rparr> ?m))) = Some [''Alice'', ''Bob'']"
    by (simp add: handleJoinRequest_def Let_def)
  show ?thesis
    using v join_admission_names_unique [of ?m ?gs
        "\<lparr>ident = ''peer2'', name = ''Alice'', guesses = [], timeUsed = 0, pstatus = PPlaying,
          joinedAt = 1700000009000\<rparr>" 1700000010000]
    by simp
qed

section \<open>Elapsed time\<close>

















lemma step_not_waiting:
  "sessionStatus m \<noteq> Some SWaiting \<Longrightarrow> sessionStatus (step m e) \<noteq> Some SWaiting"
  by (cases e)
    (auto simp: sessionStatus_def handleJoinRequest_def handlePlayerJoined_def
      handlePlayerGuess_def handlePlayerLeft_def broadcastGameState_def Let_def
      split: option.splits if_splits)

text \<open>A session that has left \<open>waiting\<close> never stamps its start time again.\<close>

lemma restampHarmless_started:
  "sessionStatus m \<noteq> Some SWaiting \<Longrightarrow> restampHarmless m evs"
  by (induction evs arbitrary: m) (simp_all add: step_not_waiting)

text \<open>
  Why the condition on the start: were \<open>handlePlayerJoined\<close> to admit a player to a waiting
  session after a guess has recorded 100 seconds, the start time would be stamped anew
  and the next guess, one second later, would record 1.
\<close>

lemma restamp_after_guess:
  "timesUsed (run
       \<lparr>gameState = Some \<lparr>gameId = ''K3J9X2'', hostWord = ''HOUSE'',
          players = [\<lparr>ident = ''host1'', name = ''Alice'', guesses = [], timeUsed = 0,
                       pstatus = PPlaying, joinedAt = 1700000000000\<rparr>],
          status = SWaiting, startTime = Some 1700000000000\<rparr>,
        isHost = True, currentPlayerId = Some ''host1''\<rparr>
       [GuessEv 1700000100000 ''host1''
          \<lparr>word = ''mouse'', commonLetters = 0, timestamp = 1700000100000\<rparr>,
        PlayerJoined 1700000200000
          \<lparr>ident = ''peer2'', name = ''Bob'', guesses = [], timeUsed = 0, pstatus = PPlaying,
            joinedAt = 1700000199000\<rparr>,
        GuessEv 1700000201000 ''host1''
          \<lparr>word = ''horse'', commonLetters = 0, timestamp = 1700000201000\<rparr>]) = [1, 0]"
  by (simp add: timesUsed_def evalHandlers evalWords evalChars)




section \<open>Reconnection\<close>






lemma joinGame_posts:
  assumes "trim n \<noteq> []" and "truthy (storage pg (hostKey gid))"
  shows "fst (joinGame now gid n pg) = Inr ()
       \<and> posted (bm (snd (joinGame now gid n pg)))
           = posted (bm pg) @
             [(gameKey gid,
               JoinRequestMsg \<lparr>ident = myId (bm pg), name = trim n, guesses = [], timeUsed = 0,
                                pstatus = PPlaying, joinedAt = now\<rparr>)]"
  using assms by (simp add: joinGame_def bmJoinGame_def bmBroadcast_def Let_def)

lemma bmBroadcast_open:
  "\<not> channelClosed b \<Longrightarrow> \<exists>b'. bmBroadcast msg b = Inr b' \<and> channelClosed b' = channelClosed b
      \<and> channel b' = channel b \<and> bmIsHost b' = bmIsHost b \<and> bmGameId b' = bmGameId b"
  by (simp add: bmBroadcast_def split: option.splits)








end
